theory Spec2Isabelle
  imports Complex_Main "HOL-Library.Char_ord" "HOL-Library.List_Lexorder" "HOL-Library.Log_Nat"
begin

section \<open>Data model: the pandas objects the code works on\<close>

text \<open>
  validata evaluates rules on pandas DataFrames. A frame is modelled column-major: a row
  count (the default RangeIndex \<open>0..n-1\<close>, so index alignment is by position) and a list
  of columns, each with a label, a dtype and its cells. A float is the real number it
  denotes, or NaN. The arithmetic of the outlier methods rounds as doubles do (see there);
  elsewhere rounding is outside the model, and so are the infinities.
\<close>

datatype label = LStr string | LInt int

datatype dtype = Int64 | Float64 | Bool | Object

datatype cell = CNone | CNaN | CBool bool | CInt int | CFloat real | CStr string

record column =
  cname :: label
  cdtype :: dtype
  cells :: "cell list"

record frame =
  nrows :: nat
  columns :: "column list"

datatype error =
    ValueError string
  | TypeError string
  | AttributeError string
  | RuntimeError string
  | StopIteration
  | ColumnsTypeError string "label set"
  | LabelsTypeError "label set"

text \<open>
  \<open>ColumnsTypeError d S\<close> is the \<open>TypeError\<close> of \<open>Comparator._check_dtypes\<close>, whose message
  is \<open>Columns did not match data type 'd': \<close> followed by the names of \<open>S\<close> joined with
  commas. The source joins a Python set, whose iteration order is not fixed, so the model
  keeps the set of names rather than one rendering of it. \<open>LabelsTypeError S\<close> is the
  \<open>TypeError\<close> that \<open>', '.join(invalid)\<close> itself raises when a label of the set \<open>S\<close> is not a
  string (\<open>sequence item i: expected str instance, int found\<close>, with \<open>i\<close> the place of the
  first such label in the iteration of the set); no message of the guard is built then.
\<close>

text \<open>A text between single quotes, as the messages of the errors show names.\<close>

definition quoted :: "string \<Rightarrow> string" where
  "quoted s = [CHR 0x27] @ s @ [CHR 0x27]"

text \<open>
  Every DataFrame is well formed: each column holds one cell per row. Column labels are
  taken to be distinct where a comparator selects columns by label.
\<close>

definition wf_frame :: "frame \<Rightarrow> bool" where
  "wf_frame f = list_all (\<lambda>c. length (cells c) = nrows f) (columns f)"

definition shape :: "frame \<Rightarrow> nat \<times> nat" where
  "shape f = (nrows f, length (columns f))"

definition isna_cell :: "cell \<Rightarrow> bool" where
  "isna_cell c = (c = CNone \<or> c = CNaN)"

definition bool_column :: "label \<Rightarrow> bool list \<Rightarrow> column" where
  "bool_column l bs = \<lparr>cname = l, cdtype = Bool, cells = map CBool bs\<rparr>"

definition bool_frame :: "label \<Rightarrow> bool list \<Rightarrow> frame" where
  "bool_frame l bs = \<lparr>nrows = length bs, columns = [bool_column l bs]\<rparr>"

section \<open>Parser (parser.py)\<close>

text \<open>
  Modelled from the spec: the Tokenizer (\<open>validata.tokenizer\<close>, imported by parser.py and
  not among the sources) lexes the rule into tokens of the kinds \<open>AND\<close>, \<open>OR\<close>,
  \<open>GROUP_OPEN\<close>, \<open>GROUP_CLOSE\<close> and \<open>EXPR\<close> (a leaf clause, with its text) and hands them
  out one at a time, forward only; parser.py reads a token's \<open>type\<close> and \<open>value\<close>.
\<close>

datatype token_type = AND | OR | GROUP_OPEN | GROUP_CLOSE | EXPR

record token =
  ttype :: token_type
  tvalue :: string

text \<open>
  The tokenizer is the iterator \<open>self._tokenizer\<close> that every (nested) call of \<open>evaluate\<close>
  pulls from: it is the list of tokens not yet pulled, which \<open>evaluate\<close> takes and returns.
  \<open>Evaluator(text).evaluate(df)\<close> (\<open>validata.evaluator\<close>, not among the sources either) for
  the dataset at hand is the parameter \<open>ev\<close>.
\<close>

type_synonym evaluator = "string \<Rightarrow> error + frame"

fun str_nat :: "nat \<Rightarrow> string" where
  "str_nat n =
     (if n < 10 then [char_of (48 + n)] else str_nat (n div 10) @ [char_of (48 + n mod 10)])"

declare str_nat.simps [simp del]

definition str_int :: "int \<Rightarrow> string" where
  "str_int i = (if i < 0 then CHR ''-'' # str_nat (nat (- i)) else str_nat (nat i))"

fun str_label :: "label \<Rightarrow> string" where
  "str_label (LStr s) = s"
| "str_label (LInt i) = str_int i"

text \<open>Truth value of a cell, as \<open>bool(x)\<close> gives it.\<close>

fun truthy :: "cell \<Rightarrow> bool" where
  "truthy (CBool b) = b"
| "truthy (CInt i) = (i \<noteq> 0)"
| "truthy (CFloat x) = (x \<noteq> 0)"
| "truthy (CStr s) = (s \<noteq> [])"
| "truthy CNone = False"
| "truthy CNaN = True"

text \<open>
  \<open>DataFrame.join\<close> is a left join on the index: the right frame's columns are reindexed
  to the left frame's rows (a row the right frame lacks is filled with NaN, which upcasts
  the column), and the right label that also names a left column gets the suffix.
\<close>

fun upcast_cell :: "cell \<Rightarrow> cell" where
  "upcast_cell (CInt i) = CFloat (real_of_int i)"
| "upcast_cell c = c"

definition reindex :: "nat \<Rightarrow> column \<Rightarrow> column" where
  "reindex n c =
     (if n \<le> length (cells c) then c\<lparr>cells := take n (cells c)\<rparr>
      else c\<lparr>cdtype := (if cdtype c = Int64 \<or> cdtype c = Float64 then Float64 else Object),
             cells := (if cdtype c = Int64 then map upcast_cell (cells c) else cells c)
                      @ replicate (n - length (cells c)) CNaN\<rparr>)"

definition join :: "frame \<Rightarrow> frame \<Rightarrow> string \<Rightarrow> frame" where
  "join left right rsuffix =
     \<lparr>nrows = nrows left,
      columns = columns left @
        map (\<lambda>c. (reindex (nrows left) c)
               \<lparr>cname := (if cname c \<in> set (map cname (columns left))
                           then LStr (str_label (cname c) @ rsuffix) else cname c)\<rparr>)
            (columns right)\<rparr>"

text \<open>
  \<open>np.all(frame, axis=1)\<close> and \<open>np.any(frame, axis=1)\<close> are the frame's own row-wise
  reductions, which skip missing cells.
\<close>

definition np_all :: "frame \<Rightarrow> bool list" where
  "np_all f =
     map (\<lambda>i. list_all (\<lambda>c. isna_cell (cells c ! i) \<or> truthy (cells c ! i)) (columns f))
       [0..<nrows f]"

definition np_any :: "frame \<Rightarrow> bool list" where
  "np_any f =
     map (\<lambda>i. list_ex (\<lambda>c. \<not> isna_cell (cells c ! i) \<and> truthy (cells c ! i)) (columns f))
       [0..<nrows f]"

text \<open>\<open>Series.to_frame()\<close> of an unnamed series: one column, labelled \<open>0\<close>.\<close>

definition to_frame :: "bool list \<Rightarrow> frame" where
  "to_frame bs = bool_frame (LInt 0) bs"

definition combine :: "token_type \<Rightarrow> frame \<Rightarrow> frame \<Rightarrow> frame" where
  "combine ty result right_hand =
     (if ty = AND then to_frame (np_all (join result right_hand ''_rh''))
      else to_frame (np_any (join result right_hand ''_rh'')))"

text \<open>
  The end of \<open>evaluate\<close>: \<open>result.columns = [self._id]; return result\<close>. The assignment
  fails on \<open>None\<close> and on a frame that has not exactly one column.
\<close>

definition finish :: "label \<Rightarrow> frame option \<Rightarrow> token list \<Rightarrow> error + (frame \<times> token list)" where
  "finish vid result rest =
     (case result of
        None \<Rightarrow>
          Inl (AttributeError (quoted ''NoneType'' @ '' object has no attribute ''
                 @ quoted ''columns''))
      | Some r \<Rightarrow>
          (case columns r of
             [c] \<Rightarrow> Inr (r\<lparr>columns := [c\<lparr>cname := vid\<rparr>]\<rparr>, rest)
           | cs \<Rightarrow>
               Inl (ValueError (''Length mismatch: Expected axis has '' @ str_nat (length cs)
                      @ '' elements, new values have 1 elements''))))"

text \<open>
  The \<open>for token in self._tokenizer\<close> loop of \<open>Parser.evaluate\<close>, with the loop variable
  \<open>result\<close> and the tokens left as arguments. A nested \<open>self.evaluate(df)\<close> is the loop
  started with \<open>result = None\<close> on the tokens left; the caller goes on with the tokens the
  nested call has left. \<open>next(self._tokenizer)\<close> on an exhausted tokenizer raises
  \<open>StopIteration\<close>.
\<close>

function evaluate_for ::
  "evaluator \<Rightarrow> label \<Rightarrow> frame option \<Rightarrow> token list \<Rightarrow> error + (frame \<times> token list)" where
  "evaluate_for ev vid result [] = finish vid result []"
| "evaluate_for ev vid result (t # ts) =
     (if ttype t = GROUP_OPEN then
        (case evaluate_for ev vid None ts of
           Inl e \<Rightarrow> Inl e
         | Inr (r, ts') \<Rightarrow> evaluate_for ev vid (Some r) ts')
      else if ttype t = GROUP_CLOSE then finish vid result ts
      else if ttype t \<in> {AND, OR} then
        (case result of
           None \<Rightarrow> Inl (ValueError ''Use of and / or without left hand side expression.'')
         | Some res \<Rightarrow>
             (case ts of
                [] \<Rightarrow> Inl StopIteration
              | next_token # ts1 \<Rightarrow>
                  (if ttype next_token = GROUP_OPEN then
                     (case evaluate_for ev vid None ts1 of
                        Inl e \<Rightarrow> Inl e
                      | Inr (right_hand, ts2) \<Rightarrow>
                          evaluate_for ev vid (Some (combine (ttype t) res right_hand)) ts2)
                   else
                     (case ev (tvalue next_token) of
                        Inl e \<Rightarrow> Inl e
                      | Inr right_hand \<Rightarrow>
                          evaluate_for ev vid (Some (combine (ttype t) res right_hand)) ts1))))
      else
        (case result of
           Some r \<Rightarrow> Inl (ValueError ''Expected and / or, got expression instead.'')
         | None \<Rightarrow>
             (case ev (tvalue t) of
                Inl e \<Rightarrow> Inl e
              | Inr r \<Rightarrow> evaluate_for ev vid (Some r) ts)))"
  by pat_completeness auto


lemma finish_rest: "finish vid result rest = Inr (r, ts') \<Longrightarrow> ts' = rest"
  by (auto simp: finish_def split: option.splits list.splits)

lemma evaluate_for_rest:
  "evaluate_for_dom (ev, vid, result, ts) \<Longrightarrow> evaluate_for ev vid result ts = Inr (r, ts') \<Longrightarrow>
     length ts' \<le> length ts"
proof (induction ev vid result ts arbitrary: r ts' rule: evaluate_for.pinduct)
  case (1 ev vid result)
  then show ?case by (auto simp: evaluate_for.psimps dest: finish_rest)
next
  case (2 ev vid result t ts)
  show ?case
  proof (cases "ttype t = GROUP_OPEN")
    case True
    with "2.hyps" "2.prems" obtain r1 ts1 where a: "evaluate_for ev vid None ts = Inr (r1, ts1)"
      and b: "evaluate_for ev vid (Some r1) ts1 = Inr (r, ts')"
      by (auto simp: evaluate_for.psimps split: sum.splits)
    from "2.IH"(1)[OF True a] have "length ts1 \<le> length ts" .
    moreover from "2.IH"(2)[OF True a refl b] have "length ts' \<le> length ts1" .
    ultimately show ?thesis by simp
  next
    case no: False
    show ?thesis
    proof (cases "ttype t = GROUP_CLOSE")
      case True
      with no "2.hyps" "2.prems" show ?thesis
        by (auto simp: evaluate_for.psimps dest: finish_rest)
    next
      case nc: False
      show ?thesis
      proof (cases "ttype t \<in> {AND, OR}")
        case True
        with no nc "2.hyps" "2.prems" obtain res nt ts1 where res: "result = Some res" and ts: "ts = nt # ts1"
          by (auto simp: evaluate_for.psimps split: option.splits list.splits)
        show ?thesis
        proof (cases "ttype nt = GROUP_OPEN")
          case g: True
          with no nc True res ts "2.hyps" "2.prems" obtain rh ts2 where
            a: "evaluate_for ev vid None ts1 = Inr (rh, ts2)" and
            b: "evaluate_for ev vid (Some (combine (ttype t) res rh)) ts2 = Inr (r, ts')"
            by (auto simp: evaluate_for.psimps split: sum.splits)
          from "2.IH"(3)[OF no nc True res ts g a] have "length ts2 \<le> length ts1" .
          moreover from "2.IH"(4)[OF no nc True res ts g a refl b] have "length ts' \<le> length ts2" .
          ultimately show ?thesis using ts by simp
        next
          case g: False
          with no nc True res ts "2.hyps" "2.prems" obtain rh where
            a: "ev (tvalue nt) = Inr rh" and
            b: "evaluate_for ev vid (Some (combine (ttype t) res rh)) ts1 = Inr (r, ts')"
            by (auto simp: evaluate_for.psimps split: sum.splits)
          from "2.IH"(5)[OF no nc True res ts g a b] show ?thesis using ts by simp
        qed
      next
        case False
        with no nc "2.hyps" "2.prems" obtain r0 where "result = None" and a: "ev (tvalue t) = Inr r0"
          and b: "evaluate_for ev vid (Some r0) ts = Inr (r, ts')"
          by (auto simp: evaluate_for.psimps split: option.splits sum.splits)
        from "2.IH"(6)[OF no nc False \<open>result = None\<close> a b] show ?thesis by simp
      qed
    qed
  qed
qed


termination evaluate_for
  by (relation "measure (\<lambda>(ev, vid, result, ts). length ts)")
     (auto dest: evaluate_for_rest simp: le_imp_less_Suc)

definition evaluate :: "evaluator \<Rightarrow> label \<Rightarrow> token list \<Rightarrow> error + (frame \<times> token list)" where
  "evaluate ev vid ts = evaluate_for ev vid None ts"


definition leaf :: "string \<Rightarrow> token" where
  "leaf s = \<lparr>ttype = EXPR, tvalue = s\<rparr>"

definition connective :: "token_type \<Rightarrow> token" where
  "connective ty = \<lparr>ttype = ty, tvalue = []\<rparr>"

text \<open>An evaluator given by a table of clauses and their one-column boolean results.\<close>

definition table_ev :: "(string \<times> bool list) list \<Rightarrow> evaluator" where
  "table_ev tab s =
     (case map_of tab s of
        None \<Rightarrow> Inl (ValueError s)
      | Some bs \<Rightarrow> Inr (bool_frame (LStr s) bs))"

subsection \<open>Combining one-column boolean frames\<close>

lemma join_bool_frames:
  "length ys = length xs \<Longrightarrow>
   join (bool_frame a xs) (bool_frame b ys) sfx =
     \<lparr>nrows = length xs,
      columns = [bool_column a xs,
                 bool_column (if b = a then LStr (str_label b @ sfx) else b) ys]\<rparr>"
  by (simp add: join_def bool_frame_def bool_column_def reindex_def)

lemma np_any_bool_frames:
  "length ys = length xs \<Longrightarrow>
   np_any (join (bool_frame a xs) (bool_frame b ys) sfx) = map2 (\<or>) xs ys"
  by (rule nth_equalityI) (auto simp: join_bool_frames np_any_def bool_column_def isna_cell_def)

lemma np_all_bool_frames:
  "length ys = length xs \<Longrightarrow>
   np_all (join (bool_frame a xs) (bool_frame b ys) sfx) = map2 (\<and>) xs ys"
  by (rule nth_equalityI) (auto simp: join_bool_frames np_all_def bool_column_def isna_cell_def)

lemma combine_bool_frames:
  "length ys = length xs \<Longrightarrow>
   combine ty (bool_frame a xs) (bool_frame b ys) =
     bool_frame (LInt 0) (if ty = AND then map2 (\<and>) xs ys else map2 (\<or>) xs ys)"
  by (simp add: combine_def to_frame_def np_all_bool_frames np_any_bool_frames)

lemma finish_bool_frame:
  "finish vid (Some (bool_frame a xs)) rest = Inr (bool_frame vid xs, rest)"
  by (simp add: finish_def bool_frame_def bool_column_def)

subsection \<open>Left-to-right folding of the connectives\<close>

text \<open>The two readings of \<open>x or y and z\<close>, row by row.\<close>

definition left_to_right :: "bool list \<Rightarrow> bool list \<Rightarrow> bool list \<Rightarrow> bool list" where
  "left_to_right xs ys zs = map (\<lambda>(p, q, r). (p \<or> q) \<and> r) (zip xs (zip ys zs))"

definition and_before_or :: "bool list \<Rightarrow> bool list \<Rightarrow> bool list \<Rightarrow> bool list" where
  "and_before_or xs ys zs = map (\<lambda>(p, q, r). p \<or> (q \<and> r)) (zip xs (zip ys zs))"

lemma evaluate_three_clauses:
  assumes "ev x = Inr (bool_frame a xs)" and "ev y = Inr (bool_frame b ys)"
    and "ev z = Inr (bool_frame c zs)"
    and "length ys = length xs" and "length zs = length xs"
  shows "evaluate ev vid [leaf x, connective OR, leaf y, connective AND, leaf z] =
           Inr (bool_frame vid (left_to_right xs ys zs), [])"
proof -
  have "map2 (\<and>) (map2 (\<or>) xs ys) zs = left_to_right xs ys zs"
    using assms(4,5) unfolding left_to_right_def by (intro nth_equalityI) auto
  moreover have "evaluate ev vid [leaf x, connective OR, leaf y, connective AND, leaf z] =
          Inr (bool_frame vid (map2 (\<and>) (map2 (\<or>) xs ys) zs), [])"
    using assms
    by (simp add: evaluate_def leaf_def connective_def combine_bool_frames finish_bool_frame)
  ultimately show ?thesis by simp
qed

text \<open>
  Claim C1, as stated, fails in its example: on the row where \<open>x\<close> is false, \<open>y\<close> is true
  and \<open>z\<close> is false the result of \<open>evaluate\<close> is false, and so is \<open>x \<or> (y \<and> z)\<close>: on
  this dataset the result is the column of the reading the claim says it differs from.
\<close>

theorem evaluate_or_and_example_counterexample:
  "evaluate (table_ev [(''x'', [False]), (''y'', [True]), (''z'', [False])])
      (LStr ''validation_result'')
      [leaf ''x'', connective OR, leaf ''y'', connective AND, leaf ''z''] =
     Inr (bool_frame (LStr ''validation_result'') (and_before_or [False] [True] [False]), [])
   \<and> and_before_or [False] [True] [False] = [False]"
  by (simp add: evaluate_def table_ev_def leaf_def connective_def combine_bool_frames
      finish_bool_frame and_before_or_def)

text \<open>
  Claim C1, amended. For the clauses \<open>x\<close>, \<open>y\<close>, \<open>z\<close> that the evaluator maps to one-column
  boolean frames over the same rows, \<open>Parser.evaluate\<close> on the tokens of \<open>x or y and z\<close>
  returns the column that holds, row by row, \<open>(x \<or> y) \<and> z\<close>, and pulls every token. On a
  row where \<open>x\<close> is false, \<open>y\<close> is true and \<open>z\<close> is false the result is false; on a row where
  \<open>x\<close> is true and \<open>z\<close> is false the result is false while \<open>x \<or> (y \<and> z)\<close> is true.
\<close>

theorem evaluate_or_and_left_to_right:
  assumes "ev x = Inr (bool_frame a xs)" and "ev y = Inr (bool_frame b ys)"
    and "ev z = Inr (bool_frame c zs)"
    and "length ys = length xs" and "length zs = length xs"
  shows "evaluate ev vid [leaf x, connective OR, leaf y, connective AND, leaf z] =
           Inr (bool_frame vid (left_to_right xs ys zs), [])
         \<and> (\<forall>i < length xs. \<not> xs ! i \<and> ys ! i \<and> \<not> zs ! i \<longrightarrow>
               \<not> left_to_right xs ys zs ! i)
         \<and> (\<forall>i < length xs. xs ! i \<and> \<not> zs ! i \<longrightarrow>
               \<not> left_to_right xs ys zs ! i \<and> and_before_or xs ys zs ! i)"
proof (intro conjI)
  show "evaluate ev vid [leaf x, connective OR, leaf y, connective AND, leaf z] =
           Inr (bool_frame vid (left_to_right xs ys zs), [])"
    using assms by (rule evaluate_three_clauses)
  show "\<forall>i < length xs. \<not> xs ! i \<and> ys ! i \<and> \<not> zs ! i \<longrightarrow> \<not> left_to_right xs ys zs ! i"
    using assms(4,5) by (simp add: left_to_right_def)
  show "\<forall>i < length xs. xs ! i \<and> \<not> zs ! i \<longrightarrow>
               \<not> left_to_right xs ys zs ! i \<and> and_before_or xs ys zs ! i"
    using assms(4,5) by (simp add: left_to_right_def and_before_or_def)
qed

theorem evaluate_or_and_left_to_right_witness:
  "evaluate (table_ev [(''x'', [False, True]), (''y'', [True, False]), (''z'', [False, False])])
      (LStr ''validation_result'')
      [leaf ''x'', connective OR, leaf ''y'', connective AND, leaf ''z''] =
     Inr (bool_frame (LStr ''validation_result'') [False, False], [])
   \<and> left_to_right [False, True] [True, False] [False, False] = [False, False]
   \<and> and_before_or [False, True] [True, False] [False, False] = [False, True]"
  using evaluate_or_and_left_to_right
    [of "table_ev [(''x'', [False, True]), (''y'', [True, False]), (''z'', [False, False])]"
        "''x''" "LStr ''x''" "[False, True]" "''y''" "LStr ''y''" "[True, False]"
        "''z''" "LStr ''z''" "[False, False]" "LStr ''validation_result''"]
  by (simp add: table_ev_def left_to_right_def and_before_or_def)

subsection \<open>A closing parenthesis without an opening one\<close>

lemma group_close_stops:
  "\<forall>t \<in> set pre. ttype t \<noteq> GROUP_OPEN \<and> ttype t \<noteq> GROUP_CLOSE \<Longrightarrow>
   evaluate_for ev vid result pre = Inr (r, rest0) \<Longrightarrow>
   evaluate_for ev vid result (pre @ connective GROUP_CLOSE # rest) = Inr (r, rest)"
proof (induction ev vid result pre rule: evaluate_for.induct)
  case (1 ev vid result)
  then show ?case
    by (auto simp: connective_def finish_def split: option.splits list.splits)
next
  case (2 ev vid result t ts)
  then show ?case
    by (auto split: option.splits list.splits sum.splits if_splits)
qed

text \<open>
  Claim C3, as stated, fails: on the tokens of \<open>a > 1 ) and b > 2\<close> the loop leaves at the
  \<open>GROUP_CLOSE\<close> token and \<open>evaluate\<close> returns the result of \<open>a > 1\<close> alone; no error is
  raised and the tokens \<open>and\<close>, \<open>b > 2\<close> are never pulled.
\<close>

theorem unmatched_group_close_counterexample:
  "evaluate (table_ev [(''a > 1'', [True, False]), (''b > 2'', [False, False])])
      (LStr ''validation_result'')
      [leaf ''a > 1'', connective GROUP_CLOSE, connective AND, leaf ''b > 2''] =
     Inr (bool_frame (LStr ''validation_result'') [True, False],
          [connective AND, leaf ''b > 2''])"
  by (simp add: evaluate_def table_ev_def leaf_def connective_def finish_bool_frame)

text \<open>
  Claim C3, amended. A \<open>GROUP_CLOSE\<close> with no \<open>GROUP_OPEN\<close> before it ends the evaluation
  without an error: when the tokens before it hold no group token and evaluate to \<open>r\<close>,
  \<open>evaluate\<close> on the whole rule returns \<open>r\<close> and leaves every token after the
  \<open>GROUP_CLOSE\<close> unread.
\<close>

theorem unmatched_group_close_returns_prefix:
  assumes "GROUP_OPEN \<notin> set (map ttype pre)" and "GROUP_CLOSE \<notin> set (map ttype pre)"
    and "evaluate ev vid pre = Inr (r, [])"
  shows "evaluate ev vid (pre @ connective GROUP_CLOSE # rest) = Inr (r, rest)"
proof -
  from assms(1,2) have "\<forall>t \<in> set pre. ttype t \<noteq> GROUP_OPEN \<and> ttype t \<noteq> GROUP_CLOSE"
    by (metis image_eqI set_map)
  then show ?thesis
    using assms(3) unfolding evaluate_def by (rule group_close_stops)
qed

theorem unmatched_group_close_returns_prefix_witness:
  "GROUP_OPEN \<notin> set (map ttype [leaf ''a > 1'', connective OR, leaf ''b > 2''])
   \<and> GROUP_CLOSE \<notin> set (map ttype [leaf ''a > 1'', connective OR, leaf ''b > 2''])
   \<and> evaluate (table_ev [(''a > 1'', [True, False]), (''b > 2'', [False, False])]) (LStr ''v'')
       ([leaf ''a > 1'', connective OR, leaf ''b > 2''] @ connective GROUP_CLOSE # [leaf ''c'']) =
     Inr (bool_frame (LStr ''v'') [True, False], [leaf ''c''])"
proof -
  let ?ev = "table_ev [(''a > 1'', [True, False]), (''b > 2'', [False, False])]"
  let ?pre = "[leaf ''a > 1'', connective OR, leaf ''b > 2'']"
  have h1: "GROUP_OPEN \<notin> set (map ttype ?pre)"
    by (simp add: leaf_def connective_def)
  have h2: "GROUP_CLOSE \<notin> set (map ttype ?pre)"
    by (simp add: leaf_def connective_def)
  have h3: "evaluate ?ev (LStr ''v'') ?pre = Inr (bool_frame (LStr ''v'') [True, False], [])"
    by (simp add: evaluate_def table_ev_def leaf_def connective_def combine_bool_frames
        finish_bool_frame)
  from unmatched_group_close_returns_prefix [OF h1 h2 h3] h1 h2 show ?thesis by blast
qed

section \<open>Comparator and operator registries (comparators/base.py, operators/base.py)\<close>

text \<open>
  A class as the registries see it: its name, the \<open>symbol\<close> attribute that
  \<open>hasattr(subclass, "symbol")\<close> finds (if any) and \<open>__subclasses__()\<close> in definition order.
\<close>

datatype pyclass = PyClass (cls_name: string) (cls_symbol: "string option") (cls_subclasses: "pyclass list")

fun get_subclasses :: "pyclass \<Rightarrow> pyclass list" where
  "get_subclasses (PyClass n s subs) =
     concat (map (\<lambda>subclass. if cls_symbol subclass = None then get_subclasses subclass
                               else [subclass]) subs)"

text \<open>
  \<open>Comparator.get\<close> and \<open>Operator.get\<close> build the dictionary \<open>symbols\<close> from
  \<open>get_subclasses()\<close> (a later class overrides an earlier one with the same symbol), raise
  \<open>TypeError\<close> for a symbol that is no key, and return an instance of the class found. The two
  methods differ in the word of the message only.
\<close>

definition symbols :: "pyclass \<Rightarrow> (string \<times> pyclass) list" where
  "symbols cls = List.map_filter (\<lambda>c. map_option (\<lambda>s. (s, c)) (cls_symbol c)) (get_subclasses cls)"

definition list_symbols :: "pyclass \<Rightarrow> string set" where
  "list_symbols cls = set (map fst (symbols cls))"

definition registry_get :: "string \<Rightarrow> pyclass \<Rightarrow> string \<Rightarrow> error + pyclass" where
  "registry_get kind cls symbol =
     (case map_of (rev (symbols cls)) symbol of
        None \<Rightarrow> Inl (TypeError (''Unknown '' @ kind @ '': '' @ symbol @ ''.''))
      | Some c \<Rightarrow> Inr c)"

text \<open>The class trees of comparators/ and operators/, as the modules define them.\<close>

definition leaf_class :: "string \<Rightarrow> string \<Rightarrow> pyclass" where
  "leaf_class n s = PyClass n (Some s) []"

definition Comparator :: pyclass where
  "Comparator = PyClass ''Comparator'' None
     [PyClass ''RowComparator'' None
        [leaf_class ''NullComparator'' ''missing'',
         leaf_class ''NotNullComparator'' ''not missing'',
         leaf_class ''EqComparator'' ''=='',
         leaf_class ''UnEqComparator'' ''!='',
         leaf_class ''GtComparator'' ''>'',
         leaf_class ''GtEqComparator'' ''>='',
         leaf_class ''LtComparator'' ''<'',
         leaf_class ''LtEqComparator'' ''<='',
         leaf_class ''InComparator'' ''in'',
         leaf_class ''BetweenComparator'' ''between'',
         leaf_class ''ContainsComparator'' ''contains'',
         leaf_class ''RankComparator'' ''ranks in'',
         leaf_class ''OutlierComparator'' ''is outlier by''],
      PyClass ''ColumnComparator'' None []]"

definition Operator :: pyclass where
  "Operator = PyClass ''Operator'' None
     [PyClass ''DataOperator'' None
        [leaf_class ''MeanOperator'' ''mean'',
         leaf_class ''MedianOperator'' ''median'',
         leaf_class ''MinOperator'' ''min'',
         leaf_class ''MaxOperator'' ''max'',
         leaf_class ''SumOperator'' ''sum''],
      PyClass ''LogicalOperator'' None
        [leaf_class ''AnyOperator'' ''any'',
         leaf_class ''AllOperator'' ''all'',
         leaf_class ''NoneOperator'' ''none'']]"

definition Comparator_get :: "string \<Rightarrow> error + pyclass" where
  "Comparator_get symbol = registry_get ''Comparator'' Comparator symbol"

definition Operator_get :: "string \<Rightarrow> error + pyclass" where
  "Operator_get symbol = registry_get ''Operator'' Operator symbol"

text \<open>\<open>mentions msg sub\<close>: the text \<open>sub\<close> occurs in the message \<open>msg\<close>.\<close>

fun mentions :: "string \<Rightarrow> string \<Rightarrow> bool" where
  "mentions [] sub = (sub = [])"
| "mentions (c # cs) sub = (take (length sub) (c # cs) = sub \<or> mentions cs sub)"

lemma mentions_prefix: "mentions (sub @ post) sub"
  by (cases "sub @ post") (auto, metis append_eq_conv_conj)

lemma mentions_append: "mentions (pre @ sub @ post) sub"
  by (induction pre) (auto simp: mentions_prefix)

lemma list_symbols_Comparator:
  "list_symbols Comparator =
     {''missing'', ''not missing'', ''=='', ''!='', ''>'', ''>='', ''<'', ''<='',
      ''in'', ''between'', ''contains'', ''ranks in'', ''is outlier by''}"
  by (auto simp: list_symbols_def symbols_def Comparator_def leaf_class_def List.map_filter_simps)

lemma list_symbols_Operator:
  "list_symbols Operator =
     {''mean'', ''median'', ''min'', ''max'', ''sum'', ''any'', ''all'', ''none''}"
  by (auto simp: list_symbols_def symbols_def Operator_def leaf_class_def List.map_filter_simps)

lemma registry_get_unknown:
  "symbol \<notin> list_symbols cls \<Longrightarrow>
   registry_get kind cls symbol = Inl (TypeError (''Unknown '' @ kind @ '': '' @ symbol @ ''.''))"
  by (simp add: registry_get_def list_symbols_def map_of_eq_None_iff[THEN iffD2]
      split: option.splits)

text \<open>
  Claim C4, as stated, fails: the message for the unregistered symbol \<open>~~\<close> is
  \<open>Unknown Comparator: ~~.\<close>, which names the requested symbol and none of the registered
  ones: \<open>==\<close> is registered and does not occur in it.
\<close>

theorem unknown_symbol_message_counterexample:
  "Comparator_get ''~~'' = Inl (TypeError ''Unknown Comparator: ~~.'')
   \<and> ''=='' \<in> list_symbols Comparator
   \<and> \<not> mentions ''Unknown Comparator: ~~.'' ''==''"
  by (simp add: Comparator_get_def registry_get_unknown list_symbols_Comparator)

text \<open>
  Claim C4, amended. For every symbol that is not registered, \<open>Comparator.get\<close> raises the
  \<open>TypeError\<close> with the message \<open>Unknown Comparator: <symbol>.\<close> and \<open>Operator.get\<close> the one
  with the message \<open>Unknown Operator: <symbol>.\<close>; the message names the requested symbol
  and nothing else.
\<close>

theorem unknown_symbol_error:
  "(symbol \<notin> list_symbols Comparator \<longrightarrow>
      Comparator_get symbol = Inl (TypeError (''Unknown Comparator: '' @ symbol @ ''.''))
      \<and> mentions (''Unknown Comparator: '' @ symbol @ ''.'') symbol)
   \<and> (symbol \<notin> list_symbols Operator \<longrightarrow>
      Operator_get symbol = Inl (TypeError (''Unknown Operator: '' @ symbol @ ''.''))
      \<and> mentions (''Unknown Operator: '' @ symbol @ ''.'') symbol)"
  using mentions_append [of "''Unknown Comparator: ''" symbol "''.''"]
    mentions_append [of "''Unknown Operator: ''" symbol "''.''"]
  by (simp add: Comparator_get_def Operator_get_def registry_get_unknown)

theorem unknown_symbol_error_witness:
  "''~~'' \<notin> list_symbols Comparator
   \<and> Comparator_get ''~~'' = Inl (TypeError ''Unknown Comparator: ~~.'')
   \<and> ''~~'' \<notin> list_symbols Operator
   \<and> Operator_get ''~~'' = Inl (TypeError ''Unknown Operator: ~~.'')"
proof -
  have c: "''~~'' \<notin> list_symbols Comparator"
    by (simp add: list_symbols_Comparator)
  have p: "''~~'' \<notin> list_symbols Operator"
    by (simp add: list_symbols_Operator)
  from unknown_symbol_error [of "''~~''"] c p show ?thesis by simp
qed

section \<open>Comparators (comparators.py, comparators/)\<close>

text \<open>
  A comparator is called with the selected columns and a target. The target is a Python
  scalar or a pandas Series (a per-row vector, with its dtype and the default RangeIndex).
\<close>

datatype target = Scalar cell | Vector dtype "cell list"

text \<open>
  What the code leaves to pandas and Python and the sources do not fix is a parameter of the
  model: the conversion of a Series to another dtype (\<open>Series.astype\<close>), the conversion of a
  scalar by the constructor \<open>pd.Series(value, index=..., dtype=...)\<close>, Python's \<open>float\<close> on a
  string (\<open>None\<close>: \<open>ValueError\<close>), the text \<open>str\<close> gives for a target that is not a string,
  what the statistics of the outlier methods do on a column that is not numeric, and the
  reductions \<open>Series.mean\<close>, \<open>Series.std\<close> and \<open>Series.median\<close> over the values of a numeric
  series that are not missing (\<open>None\<close>: NaN).
\<close>

record pandas =
  astype :: "dtype \<Rightarrow> dtype \<Rightarrow> cell list \<Rightarrow> error + cell list"
  from_scalar :: "dtype \<Rightarrow> cell \<Rightarrow> error + cell"
  py_float :: "string \<Rightarrow> real option"
  py_str :: "target \<Rightarrow> string"
  outlier_other :: "string \<Rightarrow> column \<Rightarrow> real option \<Rightarrow> real option \<Rightarrow> error + bool list"
  mean :: "real list \<Rightarrow> real option"
  std :: "real list \<Rightarrow> real option"
  median :: "real list \<Rightarrow> real option"

fun scalar_dtype :: "cell \<Rightarrow> dtype" where
  "scalar_dtype CNone = Object"
| "scalar_dtype CNaN = Float64"
| "scalar_dtype (CBool b) = Bool"
| "scalar_dtype (CInt i) = Int64"
| "scalar_dtype (CFloat x) = Float64"
| "scalar_dtype (CStr s) = Object"

text \<open>
  \<open>if not isinstance(target, pd.Series): target = pd.Series(target, index=df.index)\<close>:
  a scalar is repeated for every row, with the dtype pandas infers for it.
\<close>

definition series_of_target :: "nat \<Rightarrow> target \<Rightarrow> dtype \<times> cell list" where
  "series_of_target n target =
     (case target of
        Scalar v \<Rightarrow> (scalar_dtype v, replicate n v)
      | Vector dt vs \<Rightarrow> (dt, vs))"

text \<open>\<open>Series.astype(dtype)\<close>: a copy when the dtype is the series' own.\<close>

definition series_astype :: "pandas \<Rightarrow> dtype \<Rightarrow> dtype \<times> cell list \<Rightarrow> error + cell list" where
  "series_astype lib dt s = (if fst s = dt then Inr (snd s) else astype lib dt (fst s) (snd s))"

text \<open>
  \<open>pd.Series(value, index=..., dtype=dt)\<close> for a scalar: the value as it is when it has the
  dtype already or the dtype is \<open>object\<close>.
\<close>

definition coerce_scalar :: "pandas \<Rightarrow> dtype \<Rightarrow> cell \<Rightarrow> error + cell" where
  "coerce_scalar lib dt v =
     (if dt = Object \<or> scalar_dtype v = dt then Inr v else from_scalar lib dt v)"

fun sequence :: "('e + 'a) list \<Rightarrow> 'e + 'a list" where
  "sequence [] = Inr []"
| "sequence (x # xs) =
     (case x of
        Inl e \<Rightarrow> Inl e
      | Inr v \<Rightarrow> (case sequence xs of Inl e \<Rightarrow> Inl e | Inr vs \<Rightarrow> Inr (v # vs)))"

subsection \<open>Comparing cells\<close>

datatype cmp = OpEq | OpNe | OpLt | OpLe | OpGt | OpGe

fun num_of :: "cell \<Rightarrow> real option" where
  "num_of (CInt i) = Some (real_of_int i)"
| "num_of (CFloat x) = Some x"
| "num_of (CBool b) = Some (if b then 1 else 0)"
| "num_of _ = None"

fun str_of :: "cell \<Rightarrow> string option" where
  "str_of (CStr s) = Some s"
| "str_of _ = None"

fun cmp_ord :: "cmp \<Rightarrow> ('a :: linorder) \<Rightarrow> 'a \<Rightarrow> bool" where
  "cmp_ord OpEq a b = (a = b)"
| "cmp_ord OpNe a b = (a \<noteq> b)"
| "cmp_ord OpLt a b = (a < b)"
| "cmp_ord OpLe a b = (a \<le> b)"
| "cmp_ord OpGt a b = (a > b)"
| "cmp_ord OpGe a b = (a \<ge> b)"

text \<open>
  One cell against another, as the pandas comparison methods do it: a comparison with a
  missing value is false (true for \<open>ne\<close>); numbers (and booleans) compare by value, strings
  by code point; a string and a number are unequal, and ordering them raises \<open>TypeError\<close>.
\<close>

definition cmp_cells :: "cmp \<Rightarrow> cell \<Rightarrow> cell \<Rightarrow> error + bool" where
  "cmp_cells op a b =
     (if isna_cell a \<or> isna_cell b then Inr (op = OpNe)
      else case (num_of a, num_of b) of
        (Some x, Some y) \<Rightarrow> Inr (cmp_ord op x y)
      | _ \<Rightarrow>
        (case (str_of a, str_of b) of
           (Some s, Some t) \<Rightarrow> Inr (cmp_ord op s t)
         | _ \<Rightarrow>
           (if op = OpEq then Inr False else if op = OpNe then Inr True
            else Inl (TypeError ''not supported between instances of str and a number''))))"


text \<open>
  Two series of the same index, value by value (\<open>series == other\<close> and the like). The
  operator form refuses series that are not identically labelled.
\<close>

definition cmp_values :: "cmp \<Rightarrow> cell list \<Rightarrow> cell list \<Rightarrow> error + bool list" where
  "cmp_values op xs ys = sequence (map (\<lambda>(a, b). cmp_cells op a b) (zip xs ys))"

definition series_eq :: "cell list \<Rightarrow> cell list \<Rightarrow> error + bool list" where
  "series_eq xs ys =
     (if length xs \<noteq> length ys
      then Inl (ValueError ''Can only compare identically-labeled Series objects'')
      else cmp_values OpEq xs ys)"

subsection \<open>Frames of booleans\<close>

definition isna :: "frame \<Rightarrow> frame" where
  "isna df =
     df\<lparr>columns := map (\<lambda>c. bool_column (cname c) (map isna_cell (cells c))) (columns df)\<rparr>"

fun invert_cell :: "cell \<Rightarrow> cell" where
  "invert_cell (CBool b) = CBool (\<not> b)"
| "invert_cell c = c"

text \<open>\<open>~frame\<close> on a frame of booleans.\<close>

definition invert :: "frame \<Rightarrow> frame" where
  "invert df = df\<lparr>columns := map (\<lambda>c. c\<lparr>cells := map invert_cell (cells c)\<rparr>) (columns df)\<rparr>"

subsection \<open>The dtype guard\<close>

text \<open>
  \<open>df.select_dtypes(dtype)\<close> for the two dtype names the comparators pass: \<open>number\<close> selects
  the integer and float columns, \<open>object\<close> the object columns.
\<close>

definition dtype_matches :: "string \<Rightarrow> dtype \<Rightarrow> bool" where
  "dtype_matches name dt =
     (if name = ''number'' then dt = Int64 \<or> dt = Float64
      else if name = ''object'' then dt = Object
      else False)"

definition select_dtypes :: "frame \<Rightarrow> string \<Rightarrow> frame" where
  "select_dtypes df name = df\<lparr>columns := filter (\<lambda>c. dtype_matches name (cdtype c)) (columns df)\<rparr>"

fun is_LStr :: "label \<Rightarrow> bool" where
  "is_LStr (LStr s) = True"
| "is_LStr (LInt i) = False"

text \<open>
  \<open>Comparator._check_dtypes\<close> (comparators/base.py), the guard of the comparators of
  comparators/row_wise.py.
\<close>

definition dtype_error :: "string \<Rightarrow> label set \<Rightarrow> error" where
  "dtype_error dtype invalid =
     (if \<forall>l \<in> invalid. is_LStr l then ColumnsTypeError dtype invalid
      else LabelsTypeError invalid)"

definition check_dtypes :: "frame \<Rightarrow> string \<Rightarrow> error + unit" where
  "check_dtypes df dtype =
     (let invalid = set (map cname (columns df)) - set (map cname (columns (select_dtypes df dtype)))
      in if invalid \<noteq> {} then Inl (dtype_error dtype invalid) else Inr ())"

text \<open>
  Modelled from the spec: \<open>_check_dtypes\<close> of the base class of the legacy module
  comparators.py, which that module imports from \<open>validata.base_classes\<close>; the file is not
  among the sources. The spec has one dtype guard for all comparators: numeric-only
  comparators fail with a type error listing offending columns if any selected column is
  non-numeric. The guard of the legacy module is therefore taken to be the one of
  comparators/base.py.
\<close>

definition check_dtypes_legacy :: "frame \<Rightarrow> string \<Rightarrow> error + unit" where
  "check_dtypes_legacy df dtype = check_dtypes df dtype"

subsection \<open>Missing and NotMissing\<close>

text \<open>
  \<open>NullComparator\<close> and \<open>NotNullComparator\<close>; comparators.py and comparators/row_wise.py
  carry the same text. The target defaults to \<open>None\<close>.
\<close>

definition NullComparator :: "frame \<Rightarrow> target \<Rightarrow> error + frame" where
  "NullComparator df target = Inr (isna df)"

definition NotNullComparator :: "frame \<Rightarrow> target \<Rightarrow> error + frame" where
  "NotNullComparator df target = Inr (invert (isna df))"

subsection \<open>Eq and UnEq, legacy module (comparators.py)\<close>

text \<open>
  \<open>res = pd.DataFrame()\<close>, then one column at a time
  \<open>res[col] = df[col] == target.astype(df[col].dtype)\<close>. The empty frame has no rows; the
  first column assigned brings the rows of \<open>df\<close>. Column labels are taken to be distinct, so
  that \<open>df[col]\<close> is one column.
\<close>

definition EqComparator_legacy :: "pandas \<Rightarrow> frame \<Rightarrow> target \<Rightarrow> error + frame" where
  "EqComparator_legacy lib df target =
     (let tgt = series_of_target (nrows df) target in
      case sequence (map (\<lambda>col.
             case series_astype lib (cdtype col) tgt of
               Inl e \<Rightarrow> Inl e
             | Inr t \<Rightarrow>
                 (case series_eq (cells col) t of
                    Inl e \<Rightarrow> Inl e
                  | Inr bs \<Rightarrow> Inr (bool_column (cname col) bs)))
           (columns df)) of
        Inl e \<Rightarrow> Inl e
      | Inr cols \<Rightarrow> Inr \<lparr>nrows = (if cols = [] then 0 else nrows df), columns = cols\<rparr>)"

definition UnEqComparator_legacy :: "pandas \<Rightarrow> frame \<Rightarrow> target \<Rightarrow> error + frame" where
  "UnEqComparator_legacy lib df target =
     (case EqComparator_legacy lib df target of
        Inl e \<Rightarrow> Inl e
      | Inr res \<Rightarrow> Inr (invert res))"

subsection \<open>CompareMixin (comparators/mixins.py)\<close>

definition valid :: "string list" where
  "valid = [''eq'', ''ne'', ''lt'', ''lte'', ''gt'', ''gte'']"

text \<open>
  \<open>getattr(pd.Series, comp)\<close>: pandas names its comparison methods \<open>eq\<close>, \<open>ne\<close>, \<open>lt\<close>,
  \<open>le\<close>, \<open>gt\<close> and \<open>ge\<close>; \<open>Series\<close> has no attribute \<open>lte\<close> or \<open>gte\<close>. Only the names in
  \<open>valid\<close> reach this lookup.
\<close>

definition series_method :: "string \<Rightarrow> cmp option" where
  "series_method comp_name =
     (if comp_name = ''eq'' then Some OpEq else if comp_name = ''ne'' then Some OpNe
      else if comp_name = ''lt'' then Some OpLt else if comp_name = ''le'' then Some OpLe
      else if comp_name = ''gt'' then Some OpGt else if comp_name = ''ge'' then Some OpGe
      else None)"

text \<open>
  The flexible comparison \<open>Series.eq(series, other)\<close> and its siblings: series with equal
  indexes are compared value by value; otherwise both are aligned on the union of the two
  indexes first, and a label one side lacks is a missing value there. The union keeps the
  left labels, then the right labels that are new (pandas sorts it when the labels can be
  ordered: all integers here).
\<close>

definition union_index :: "label list \<Rightarrow> label list \<Rightarrow> label list" where
  "union_index ls rs =
     (let u = ls @ filter (\<lambda>r. r \<notin> set ls) rs
      in if list_all (\<lambda>l. \<not> is_LStr l) u
         then map LInt (sort (map (\<lambda>l. case l of LInt i \<Rightarrow> i | LStr s \<Rightarrow> 0) u))
         else u)"

definition lookup_cell :: "label list \<Rightarrow> cell list \<Rightarrow> label \<Rightarrow> cell" where
  "lookup_cell idx vals l = (case map_of (zip idx vals) l of None \<Rightarrow> CNaN | Some v \<Rightarrow> v)"

definition flex_cmp ::
  "cmp \<Rightarrow> label list \<Rightarrow> cell list \<Rightarrow> label list \<Rightarrow> cell list \<Rightarrow> error + (label \<times> bool) list" where
  "flex_cmp op lidx lvals ridx rvals =
     (let idx = (if lidx = ridx then lidx else union_index lidx ridx)
      in case cmp_values op (map (lookup_cell lidx lvals) idx) (map (lookup_cell ridx rvals) idx) of
           Inl e \<Rightarrow> Inl e
         | Inr bs \<Rightarrow> Inr (zip idx bs))"

text \<open>
  \<open>CompareMixin._compare_series\<close>, for a series with index \<open>idx\<close>, dtype \<open>dt\<close> and values
  \<open>vals\<close>. A target Series carries the default RangeIndex.
\<close>

definition range_index :: "nat \<Rightarrow> label list" where
  "range_index n = map (\<lambda>i. LInt (int i)) [0..<n]"

definition compare_series ::
  "pandas \<Rightarrow> label list \<Rightarrow> dtype \<Rightarrow> cell list \<Rightarrow> target \<Rightarrow> cmp \<Rightarrow> error + (label \<times> bool) list" where
  "compare_series lib idx dt vals target comp_func =
     (case target of
        Scalar v \<Rightarrow>
          (case coerce_scalar lib dt v of
             Inl e \<Rightarrow> Inl e
           | Inr v' \<Rightarrow> flex_cmp comp_func idx vals idx (replicate (length idx) v'))
      | Vector tdt tvals \<Rightarrow>
          (case series_astype lib dt (tdt, tvals) of
             Inl e \<Rightarrow> Inl e
           | Inr tv \<Rightarrow> flex_cmp comp_func idx vals (range_index (length tv)) tv))"

text \<open>
  A row of a frame as a Series (what \<open>apply(..., axis=1)\<close> passes to the function): the
  index holds the column labels, the dtype is the common dtype of the columns, and integers
  become floats in a row of floats.
\<close>

definition common_dtype :: "dtype list \<Rightarrow> dtype" where
  "common_dtype dts =
     (case dts of
        [] \<Rightarrow> Object
      | d # ds \<Rightarrow>
          if list_all (\<lambda>x. x = d) ds then d
          else if list_all (\<lambda>x. x = Int64 \<or> x = Float64) (d # ds) then Float64
          else Object)"

definition row_dtype :: "frame \<Rightarrow> dtype" where
  "row_dtype df = common_dtype (map cdtype (columns df))"

definition row_values :: "frame \<Rightarrow> nat \<Rightarrow> cell list" where
  "row_values df i =
     map (\<lambda>c. if row_dtype df = Float64 then upcast_cell (cells c ! i) else cells c ! i)
       (columns df)"

text \<open>
  The frame that \<open>apply(..., axis=1)\<close> builds from the series the function returned for the
  rows: one row per result, one column per label of the results' index.
\<close>

definition frame_of_rows :: "(label \<times> bool) list list \<Rightarrow> frame" where
  "frame_of_rows rows =
     \<lparr>nrows = length rows,
      columns = map (\<lambda>j. bool_column (fst (hd rows ! j)) (map (\<lambda>r. snd (r ! j)) rows))
                  [0..<length (hd rows)]\<rparr>"

text \<open>
  \<open>CompareMixin._compare\<close> on a DataFrame. \<open>DataFrame.apply\<close> does not call the function on a
  frame without rows or without columns and returns a copy of the frame.
\<close>

definition compare :: "pandas \<Rightarrow> frame \<Rightarrow> target \<Rightarrow> string \<Rightarrow> error + frame" where
  "compare lib data target comp_name =
     (if comp_name \<notin> set valid then
        Inl (ValueError (''Invalid comparisson '' @ quoted comp_name
                         @ '', choose from: eq.ne.lt.lte.gt.gte''))
      else case series_method comp_name of
        None \<Rightarrow> Inl (AttributeError (''type object '' @ quoted ''Series''
                                  @ '' has no attribute '' @ quoted comp_name))
      | Some comp_func \<Rightarrow>
          if nrows data = 0 \<or> columns data = [] then Inr data
          else
            (case sequence (map (\<lambda>i. compare_series lib (map cname (columns data)) (row_dtype data)
                                        (row_values data i) target comp_func)
                              [0..<nrows data]) of
               Inl e \<Rightarrow> Inl e
             | Inr rows \<Rightarrow> Inr (frame_of_rows rows)))"

subsection \<open>Eq, UnEq, Gt, GtEq, Lt and LtEq, package (comparators/row_wise.py)\<close>

definition EqComparator :: "pandas \<Rightarrow> frame \<Rightarrow> target \<Rightarrow> error + frame" where
  "EqComparator lib df target = compare lib df target ''eq''"

definition UnEqComparator :: "pandas \<Rightarrow> frame \<Rightarrow> target \<Rightarrow> error + frame" where
  "UnEqComparator lib df target = compare lib df target ''ne''"

definition GtComparator :: "pandas \<Rightarrow> frame \<Rightarrow> target \<Rightarrow> error + frame" where
  "GtComparator lib df target = compare lib df target ''gt''"

definition GtEqComparator :: "pandas \<Rightarrow> frame \<Rightarrow> target \<Rightarrow> error + frame" where
  "GtEqComparator lib df target = compare lib df target ''gte''"

definition LtComparator :: "pandas \<Rightarrow> frame \<Rightarrow> target \<Rightarrow> error + frame" where
  "LtComparator lib df target = compare lib df target ''lt''"

definition LtEqComparator :: "pandas \<Rightarrow> frame \<Rightarrow> target \<Rightarrow> error + frame" where
  "LtEqComparator lib df target = compare lib df target ''lte''"

subsection \<open>Gt, GtEq, Lt and LtEq, legacy module (comparators.py)\<close>

text \<open>
  \<open>df.gt(series, axis=0)\<close> and its siblings align the series with the rows of the frame on
  the union of the two indexes; with the default indexes the shorter side is filled with
  missing values.
\<close>

definition pad :: "nat \<Rightarrow> cell list \<Rightarrow> cell list" where
  "pad n xs = xs @ replicate (n - length xs) CNaN"

definition frame_cmp :: "cmp \<Rightarrow> frame \<Rightarrow> cell list \<Rightarrow> error + frame" where
  "frame_cmp op df t =
     (let n = max (nrows df) (length t) in
      case sequence (map (\<lambda>c.
             case cmp_values op (pad n (cells c)) (pad n t) of
               Inl e \<Rightarrow> Inl e
             | Inr bs \<Rightarrow> Inr (bool_column (cname c) bs))
           (columns df)) of
        Inl e \<Rightarrow> Inl e
      | Inr cols \<Rightarrow> Inr \<lparr>nrows = n, columns = cols\<rparr>)"

text \<open>
  The four classes have the same body but for the method called on the frame:
  \<open>self._check_dtypes(df, "number")\<close>, the target made a Series, and
  \<open>df.gt(target.astype(float), axis=0)\<close> (\<open>ge\<close>, \<open>lt\<close>, \<open>le\<close>).
\<close>

definition numeric_compare_legacy :: "cmp \<Rightarrow> pandas \<Rightarrow> frame \<Rightarrow> target \<Rightarrow> error + frame" where
  "numeric_compare_legacy op lib df target =
     (case check_dtypes_legacy df ''number'' of
        Inl e \<Rightarrow> Inl e
      | Inr u \<Rightarrow>
          (case series_astype lib Float64 (series_of_target (nrows df) target) of
             Inl e \<Rightarrow> Inl e
           | Inr t \<Rightarrow> frame_cmp op df t))"

definition GtComparator_legacy :: "pandas \<Rightarrow> frame \<Rightarrow> target \<Rightarrow> error + frame" where
  "GtComparator_legacy = numeric_compare_legacy OpGt"

definition GtEqComparator_legacy :: "pandas \<Rightarrow> frame \<Rightarrow> target \<Rightarrow> error + frame" where
  "GtEqComparator_legacy = numeric_compare_legacy OpGe"

definition LtComparator_legacy :: "pandas \<Rightarrow> frame \<Rightarrow> target \<Rightarrow> error + frame" where
  "LtComparator_legacy = numeric_compare_legacy OpLt"

definition LtEqComparator_legacy :: "pandas \<Rightarrow> frame \<Rightarrow> target \<Rightarrow> error + frame" where
  "LtEqComparator_legacy = numeric_compare_legacy OpLe"

subsection \<open>Between\<close>

text \<open>\<open>str.split(sep)\<close> for a separator of one character.\<close>

fun split_on :: "char \<Rightarrow> string \<Rightarrow> string list" where
  "split_on sep [] = [[]]"
| "split_on sep (c # cs) =
     (if c = sep then [] # split_on sep cs
      else (case split_on sep cs of
              [] \<Rightarrow> [[c]]
            | p # ps \<Rightarrow> (c # p) # ps))"

text \<open>
  \<open>BetweenComparator\<close> of comparators/row_wise.py (comparators.py carries the same text,
  under the guard of its own base class). A target without \<open>split\<close> (anything
  but a string) gives the first \<open>RuntimeError\<close>; unpacking anything but two parts that
  \<open>float\<close> accepts raises \<open>ValueError\<close>, which gives the second.
\<close>

definition BetweenComparator :: "pandas \<Rightarrow> frame \<Rightarrow> target \<Rightarrow> error + frame" where
  "BetweenComparator lib df target =
     (case check_dtypes df ''number'' of
        Inl e \<Rightarrow> Inl e
      | Inr u \<Rightarrow>
          (case target of
             Scalar (CStr s) \<Rightarrow>
               (case map (py_float lib) (split_on CHR '':'' s) of
                  [Some low, Some high] \<Rightarrow>
                    Inr (df\<lparr>columns := map (\<lambda>c. bool_column (cname c)
                           (map (\<lambda>x. case num_of x of
                                         None \<Rightarrow> False
                                       | Some v \<Rightarrow> low \<le> v \<and> v \<le> high) (cells c)))
                         (columns df)\<rparr>)
                | _ \<Rightarrow> Inl (RuntimeError (''BetweenComparator: Non-numeric bounds in target ''
                           @ quoted s @ ''.'')))
           | _ \<Rightarrow> Inl (RuntimeError (''BetweenComparator: Cannot split bound from target ''
                      @ quoted (py_str lib target) @ ''.''))))"

subsection \<open>RanksIn\<close>

text \<open>
  The characters \<open>\s\<close> and \<open>[0-9]\<close> match; a character stands for the code point of its
  number (below 256).
\<close>

definition is_space :: "char \<Rightarrow> bool" where
  "is_space c = (of_char c \<in> {9, 10, 11, 12, 13, 28, 29, 30, 31, 32, 133, 160 :: nat})"

definition is_digit :: "char \<Rightarrow> bool" where
  "is_digit c = (48 \<le> (of_char c :: nat) \<and> (of_char c :: nat) \<le> 57)"

text \<open>\<open>int(digits)\<close> for a string of decimal digits.\<close>

definition int_of_digits :: "string \<Rightarrow> nat" where
  "int_of_digits ds = foldl (\<lambda>a c. 10 * a + (of_char c - 48)) 0 ds"

text \<open>
  \<open>re.match(r"(?P<from>top|bottom)\s+(?P<rank>[0-9]+)\s*(?P<pct>%)?", target)\<close>: the groups
  \<open>from\<close> and \<open>rank\<close>, and whether the group \<open>pct\<close> took part. The match is anchored at the
  start of the target only.
\<close>

definition match_rank :: "string \<Rightarrow> (string \<times> string \<times> bool) option" where
  "match_rank s =
     (let from = (if take 3 s = ''top'' then ''top''
                  else if take 6 s = ''bottom'' then ''bottom'' else []);
          rest = drop (length from) s;
          digits = takeWhile is_digit (dropWhile is_space rest);
          after = dropWhile is_space (dropWhile is_digit (dropWhile is_space rest))
      in if from = [] \<or> takeWhile is_space rest = [] \<or> digits = [] then None
         else Some (from, digits, take 1 after = ''%''))"

text \<open>
  \<open>Series.rank(ascending=..., pct=...)\<close> with the defaults \<open>method='average'\<close> and
  \<open>na_option='keep'\<close>: among the values that are not missing, the number of values before
  this one plus the mean position within its ties; with \<open>pct\<close>, divided by the number of
  values. A missing value has no rank.
\<close>

definition valid_values :: "cell list \<Rightarrow> real list" where
  "valid_values xs = List.map_filter num_of xs"

definition rank_of :: "bool \<Rightarrow> bool \<Rightarrow> real list \<Rightarrow> real \<Rightarrow> real" where
  "rank_of ascending pct vs x =
     (let n_before = length (filter (\<lambda>v. if ascending then v < x else v > x) vs);
          n_ties = length (filter (\<lambda>v. v = x) vs);
          r = real n_before + (real n_ties + 1) / 2
      in if pct then r / real (length vs) else r)"

definition rank_series :: "bool \<Rightarrow> bool \<Rightarrow> cell list \<Rightarrow> real option list" where
  "rank_series ascending pct xs =
     map (\<lambda>x. map_option (rank_of ascending pct (valid_values xs)) (num_of x)) xs"

text \<open>\<open>df.rank(ascending=ascending, pct=pct) <= rank\<close>; a missing rank compares false.\<close>

definition ranks_le :: "frame \<Rightarrow> bool \<Rightarrow> bool \<Rightarrow> real \<Rightarrow> frame" where
  "ranks_le df ascending pct rank =
     df\<lparr>columns := map (\<lambda>c. bool_column (cname c)
            (map (\<lambda>r. case r of None \<Rightarrow> False | Some v \<Rightarrow> v \<le> rank)
               (rank_series ascending pct (cells c))))
          (columns df)\<rparr>"

text \<open>
  \<open>RankComparator\<close> of comparators/row_wise.py (comparators.py carries the same text,
  under the guard of its own base class). \<open>re.match\<close> raises \<open>TypeError\<close> for a
  target that is not a string.
\<close>

definition RankComparator :: "frame \<Rightarrow> target \<Rightarrow> error + frame" where
  "RankComparator df target =
     (case check_dtypes df ''number'' of
        Inl e \<Rightarrow> Inl e
      | Inr u \<Rightarrow>
          (case target of
             Scalar (CStr s) \<Rightarrow>
               (case match_rank s of
                  None \<Rightarrow>
                    Inl (ValueError (''RankComparator: Invalid target '' @ quoted s
                           @ '', use <top|bottom> <rank> (%).''))
                | Some (from, digits, pct) \<Rightarrow>
                    (let ascending = (from = ''bottom'');
                         rank = int_of_digits digits
                     in if pct then
                          (if \<not> (0 < rank \<and> rank < 100) then
                             Inl (ValueError
                                    (''RankComparator: Percentile rank must be between 0 - 100, got ''
                                     @ str_nat rank @ '' instead.''))
                           else Inr (ranks_le df ascending pct (real rank / 100)))
                        else Inr (ranks_le df ascending pct (real rank))))
           | _ \<Rightarrow> Inl (TypeError ''expected string or bytes-like object'')))"

subsection \<open>IsOutlierBy\<close>
















subsection \<open>IEEE 754 binary64\<close>







subsection \<open>Example inputs\<close>

text \<open>
  An instance of the library parameters for inputs that need no conversion and no mean,
  standard deviation or median: it refuses every conversion and returns NaN for the three
  statistics.
\<close>

definition no_conversions :: pandas where
  "no_conversions =
     \<lparr>astype = (\<lambda>dt from vs. Inl (TypeError ''astype'')),
      from_scalar = (\<lambda>dt v. Inl (TypeError ''scalar'')),
      py_float = (\<lambda>s. None),
      py_str = (\<lambda>t. []),
      outlier_other = (\<lambda>method c lo hi. Inl (TypeError ''not numeric'')),
      mean = (\<lambda>vs. None),
      std = (\<lambda>vs. None),
      median = (\<lambda>vs. None)\<rparr>"

definition float_frame :: "string \<Rightarrow> real list \<Rightarrow> frame" where
  "float_frame name xs =
     \<lparr>nrows = length xs,
      columns = [\<lparr>cname = LStr name, cdtype = Float64, cells = map CFloat xs\<rparr>]\<rparr>"

definition text_frame :: "string \<Rightarrow> string list \<Rightarrow> frame" where
  "text_frame name xs =
     \<lparr>nrows = length xs,
      columns = [\<lparr>cname = LStr name, cdtype = Object, cells = map CStr xs\<rparr>]\<rparr>"

fun is_bool :: "cell \<Rightarrow> bool" where
  "is_bool (CBool b) = True"
| "is_bool c = False"

text \<open>A frame all of whose cells are booleans.\<close>

definition bool_matrix :: "frame \<Rightarrow> bool" where
  "bool_matrix m = list_all (\<lambda>c. list_all is_bool (cells c)) (columns m)"


text \<open>The labels of the columns that \<open>select_dtypes("number")\<close> leaves out.\<close>

definition non_numeric :: "frame \<Rightarrow> label set" where
  "non_numeric df =
     set (map cname (filter (\<lambda>c. cdtype c \<noteq> Int64 \<and> cdtype c \<noteq> Float64) (columns df)))"

section \<open>Properties of the comparators\<close>

subsection \<open>Missing and NotMissing ignore the target\<close>

text \<open>
  Claim C10. \<open>NullComparator\<close> and \<open>NotNullComparator\<close> return the same matrix for any two
  targets (no target is the target \<open>None\<close>); the matrix keeps the rows and labels of the
  frame and holds true exactly where the cell is missing (is present, for NotMissing).
\<close>

theorem missing_ignores_target:
  "NullComparator df t1 = NullComparator df t2
   \<and> NotNullComparator df t1 = NotNullComparator df t2
   \<and> NullComparator df t1 =
       Inr (df\<lparr>columns := map (\<lambda>c. \<lparr>cname = cname c, cdtype = Bool,
                  cells = map (\<lambda>x. CBool (x = CNone \<or> x = CNaN)) (cells c)\<rparr>) (columns df)\<rparr>)
   \<and> NotNullComparator df t1 =
       Inr (df\<lparr>columns := map (\<lambda>c. \<lparr>cname = cname c, cdtype = Bool,
                  cells = map (\<lambda>x. CBool (x \<noteq> CNone \<and> x \<noteq> CNaN)) (cells c)\<rparr>) (columns df)\<rparr>)"
  by (simp add: NullComparator_def NotNullComparator_def isna_def invert_def bool_column_def
      isna_cell_def comp_def)

subsection \<open>UnEq is the negation of Eq\<close>

lemma sequence_map_sum:
  "sequence (map (\<lambda>x. map_sum id h (g x)) xs) = map_sum id (map h) (sequence (map g xs))"
  by (induction xs) (auto split: sum.splits)

lemma sequence_Inr_set:
  "sequence xs = Inr vs \<Longrightarrow> v \<in> set vs \<Longrightarrow> Inr v \<in> set xs"
  by (induction xs arbitrary: vs) (auto split: sum.splits)

lemma sequence_Inr_length:
  "sequence xs = Inr vs \<Longrightarrow> length vs = length xs"
  by (induction xs arbitrary: vs) (auto split: sum.splits)

lemma cmp_cells_ne: "cmp_cells OpNe a b = map_sum id Not (cmp_cells OpEq a b)"
  by (auto simp: cmp_cells_def split: option.splits)

lemma cmp_values_ne: "cmp_values OpNe xs ys = map_sum id (map Not) (cmp_values OpEq xs ys)"
proof -
  have "(\<lambda>(a, b). cmp_cells OpNe a b) = (\<lambda>p. map_sum id Not ((\<lambda>(a, b). cmp_cells OpEq a b) p))"
    by (auto simp: cmp_cells_ne)
  then show ?thesis
    unfolding cmp_values_def by (simp only: sequence_map_sum)
qed

lemma cmp_values_length: "cmp_values op xs ys = Inr bs \<Longrightarrow> length bs = min (length xs) (length ys)"
  unfolding cmp_values_def by (drule sequence_Inr_length) simp

lemma flex_cmp_ne:
  "flex_cmp OpNe lidx lvals ridx rvals = map_sum id (map (apsnd Not)) (flex_cmp OpEq lidx lvals ridx rvals)"
  by (auto simp: flex_cmp_def cmp_values_ne Let_def zip_map2 split: sum.splits)

lemma flex_cmp_index:
  "flex_cmp op lidx lvals ridx rvals = Inr r \<Longrightarrow>
   map fst r = (if lidx = ridx then lidx else union_index lidx ridx)"
  by (auto simp: flex_cmp_def Let_def split: sum.splits dest!: cmp_values_length)

lemma compare_series_ne:
  "compare_series lib idx dt vals target OpNe =
     map_sum id (map (apsnd Not)) (compare_series lib idx dt vals target OpEq)"
  by (auto simp: compare_series_def flex_cmp_ne split: target.splits sum.splits)

lemma compare_series_index:
  "compare_series lib idx dt vals target op = Inr r \<Longrightarrow>
   compare_series lib idx dt vals' target op' = Inr r' \<Longrightarrow> map fst r = map fst r'"
  by (auto simp: compare_series_def split: target.splits sum.splits dest!: flex_cmp_index)

lemma frame_of_rows_invert:
  assumes "rows \<noteq> []" and "\<forall>r \<in> set rows. length r = length (hd rows)"
  shows "frame_of_rows (map (map (apsnd Not)) rows) = invert (frame_of_rows rows)"
proof -
  have hd: "hd (map (map (apsnd Not)) rows) = map (apsnd Not) (hd rows)"
    using assms(1) by (simp add: hd_map)
  have "j < length (hd rows) \<Longrightarrow>
        bool_column (fst (map (apsnd Not) (hd rows) ! j))
          (map (\<lambda>r. snd (r ! j)) (map (map (apsnd Not)) rows)) =
        (bool_column (fst (hd rows ! j)) (map (\<lambda>r. snd (r ! j)) rows))
          \<lparr>cells := map invert_cell (cells (bool_column (fst (hd rows ! j)) (map (\<lambda>r. snd (r ! j)) rows)))\<rparr>" for j
    using assms(2) by (auto simp: bool_column_def)
  then show ?thesis
    unfolding frame_of_rows_def invert_def hd by simp
qed

lemma frame_of_rows_bool: "bool_matrix (frame_of_rows rows)"
  by (simp add: bool_matrix_def frame_of_rows_def list_all_iff bool_column_def)

lemma compare_ne:
  assumes "wf_frame df"
  shows "compare lib df target ''ne'' = map_sum id invert (compare lib df target ''eq'')"
proof (cases "nrows df = 0 \<or> columns df = []")
  case True
  have "invert df = df"
  proof (cases "columns df = []")
    case True
    then show ?thesis by (simp add: invert_def)
  next
    case False
    with True have "nrows df = 0" by simp
    with assms have "\<forall>c \<in> set (columns df). cells c = []"
      by (simp add: wf_frame_def list_all_iff)
    then have "map (\<lambda>c. c\<lparr>cells := map invert_cell (cells c)\<rparr>) (columns df) = columns df"
      by (simp add: map_idI)
    then show ?thesis by (simp add: invert_def)
  qed
  with True show ?thesis
    by (simp add: compare_def valid_def series_method_def)
next
  case False
  let ?g = "\<lambda>op i. compare_series lib (map cname (columns df)) (row_dtype df) (row_values df i) target op"
  have seq: "sequence (map (?g OpNe) [0..<nrows df]) =
        map_sum id (map (map (apsnd Not))) (sequence (map (?g OpEq) [0..<nrows df]))"
    by (simp only: compare_series_ne sequence_map_sum)
  show ?thesis
  proof (cases "sequence (map (?g OpEq) [0..<nrows df])")
    case (Inl e)
    with False seq show ?thesis
      by (simp add: compare_def valid_def series_method_def)
  next
    case (Inr rows)
    have len: "length rows = nrows df"
      using sequence_Inr_length[OF Inr] by simp
    with False have ne: "rows \<noteq> []" by auto
    have "\<forall>r \<in> set rows. length r = length (hd rows)"
    proof
      fix r assume r: "r \<in> set rows"
      from ne have h: "hd rows \<in> set rows" by simp
      from sequence_Inr_set[OF Inr r] obtain i where i: "?g OpEq i = Inr r" by auto
      from sequence_Inr_set[OF Inr h] obtain j where j: "?g OpEq j = Inr (hd rows)" by auto
      from compare_series_index[OF i j] have "map fst r = map fst (hd rows)" .
      then show "length r = length (hd rows)" by (metis length_map)
    qed
    from frame_of_rows_invert[OF ne this] Inr seq False show ?thesis
      by (simp add: compare_def valid_def series_method_def)
  qed
qed

lemma compare_eq_bool:
  assumes "wf_frame df" and "compare lib df target ''eq'' = Inr m"
  shows "bool_matrix m"
proof (cases "nrows df = 0 \<or> columns df = []")
  case True
  with assms(2) have m: "m = df" by (simp add: compare_def valid_def series_method_def)
  show ?thesis
  proof (cases "columns df = []")
    case True
    then show ?thesis by (simp add: m bool_matrix_def)
  next
    case False
    with True have "nrows df = 0" by simp
    with assms(1) have "\<forall>c \<in> set (columns df). cells c = []"
      by (simp add: wf_frame_def list_all_iff)
    then show ?thesis by (simp add: m bool_matrix_def list_all_iff)
  qed
next
  case False
  with assms(2) show ?thesis
    by (auto simp: compare_def valid_def series_method_def frame_of_rows_bool split: sum.splits)
qed

lemma sequence_bool_columns:
  "sequence xs = Inr cols \<Longrightarrow> \<forall>x \<in> set xs. \<forall>c. x = Inr c \<longrightarrow> list_all is_bool (cells c) \<Longrightarrow>
   list_all (\<lambda>c. list_all is_bool (cells c)) cols"
  by (induction xs arbitrary: cols) (auto split: sum.splits)

lemma EqComparator_legacy_bool:
  assumes "EqComparator_legacy lib df target = Inr m"
  shows "bool_matrix m"
proof -
  let ?f = "\<lambda>col. case series_astype lib (cdtype col) (series_of_target (nrows df) target) of
               Inl e \<Rightarrow> Inl e
             | Inr t \<Rightarrow>
                 (case series_eq (cells col) t of
                    Inl e \<Rightarrow> Inl e
                  | Inr bs \<Rightarrow> Inr (bool_column (cname col) bs))"
  from assms obtain cols where seq: "sequence (map ?f (columns df)) = Inr cols"
    and m: "columns m = cols"
    by (auto simp: EqComparator_legacy_def Let_def split: sum.splits)
  have "\<forall>x \<in> set (map ?f (columns df)). \<forall>c. x = Inr c \<longrightarrow> list_all is_bool (cells c)"
    by (auto simp: bool_column_def list_all_iff split: sum.splits)
  from sequence_bool_columns[OF seq this] m show ?thesis
    by (simp add: bool_matrix_def)
qed

text \<open>
  Claim C8. For every frame and every target (a scalar, a missing value or a per-row
  vector), in the legacy module and in the package: when \<open>Eq\<close> raises, \<open>UnEq\<close> raises the
  same error; when \<open>Eq\<close> returns a matrix, it is a matrix of booleans and \<open>UnEq\<close> returns its
  cell-by-cell negation.
\<close>

theorem uneq_negates_eq:
  assumes "wf_frame df"
  shows "UnEqComparator_legacy lib df target = map_sum id invert (EqComparator_legacy lib df target)
       \<and> UnEqComparator lib df target = map_sum id invert (EqComparator lib df target)
       \<and> (\<forall>m. EqComparator_legacy lib df target = Inr m \<or> EqComparator lib df target = Inr m
              \<longrightarrow> bool_matrix m)"
  using assms compare_ne[OF assms] compare_eq_bool[OF assms] EqComparator_legacy_bool
  by (auto simp: UnEqComparator_legacy_def UnEqComparator_def EqComparator_def split: sum.splits)


theorem uneq_negates_eq_witness:
  "wf_frame (float_frame ''a'' [1, 2])
   \<and> EqComparator_legacy no_conversions (float_frame ''a'' [1, 2]) (Scalar (CFloat 1)) =
       Inr (bool_frame (LStr ''a'') [True, False])
   \<and> UnEqComparator_legacy no_conversions (float_frame ''a'' [1, 2]) (Scalar (CFloat 1)) =
       Inr (bool_frame (LStr ''a'') [False, True])
   \<and> EqComparator no_conversions (float_frame ''a'' [1, 2]) (Scalar CNaN) =
       Inr (bool_frame (LStr ''a'') [False, False])
   \<and> UnEqComparator no_conversions (float_frame ''a'' [1, 2]) (Scalar CNaN) =
       Inr (bool_frame (LStr ''a'') [True, True])"
proof -
  have wf: "wf_frame (float_frame ''a'' [1, 2])"
    by (simp add: wf_frame_def float_frame_def)
  have l: "EqComparator_legacy no_conversions (float_frame ''a'' [1, 2]) (Scalar (CFloat 1)) =
       Inr (bool_frame (LStr ''a'') [True, False])"
    by (simp add: EqComparator_legacy_def float_frame_def series_of_target_def series_astype_def
        series_eq_def cmp_values_def cmp_cells_def isna_cell_def bool_frame_def)
  have p: "EqComparator no_conversions (float_frame ''a'' [1, 2]) (Scalar CNaN) =
       Inr (bool_frame (LStr ''a'') [False, False])"
    by (simp add: EqComparator_def compare_def valid_def series_method_def float_frame_def
        compare_series_def coerce_scalar_def flex_cmp_def cmp_values_def cmp_cells_def
        isna_cell_def row_dtype_def common_dtype_def row_values_def frame_of_rows_def
        bool_frame_def lookup_cell_def Let_def upt_rec numeral_2_eq_2)
  from uneq_negates_eq [OF wf, of no_conversions "Scalar (CFloat 1)"]
    uneq_negates_eq [OF wf, of no_conversions "Scalar CNaN"] wf l p
  show ?thesis by (simp add: invert_def bool_frame_def bool_column_def)
qed

subsection \<open>The dtype guard of the numeric comparators\<close>

lemma invalid_labels:
  "distinct (map cname cs) \<Longrightarrow>
   set (map cname cs) - set (map cname (filter P cs)) = set (map cname (filter (\<lambda>c. \<not> P c) cs))"
  by (induction cs) auto

lemma check_dtypes_number:
  assumes "distinct (map cname (columns df))"
    and "list_all (\<lambda>c. is_LStr (cname c)) (columns df)"
    and "c \<in> set (columns df)"
    and "cdtype c \<noteq> Int64" and "cdtype c \<noteq> Float64"
  shows "check_dtypes df ''number'' = Inl (ColumnsTypeError ''number'' (non_numeric df))"
    and "cname c \<in> non_numeric df"
proof -
  have inv: "set (map cname (columns df)) - set (map cname (columns (select_dtypes df ''number'')))
      = non_numeric df"
    using invalid_labels[OF assms(1), of "\<lambda>c. dtype_matches ''number'' (cdtype c)"]
    by (simp add: select_dtypes_def non_numeric_def dtype_matches_def)
  show "cname c \<in> non_numeric df"
    using assms(3-5) by (auto simp: non_numeric_def)
  then have ne: "non_numeric df \<noteq> {}" by auto
  have "\<forall>l \<in> non_numeric df. is_LStr l"
    using assms(2) by (auto simp: non_numeric_def list_all_iff)
  then have "dtype_error ''number'' (non_numeric df) = ColumnsTypeError ''number'' (non_numeric df)"
    by (simp add: dtype_error_def)
  with ne show "check_dtypes df ''number'' = Inl (ColumnsTypeError ''number'' (non_numeric df))"
    unfolding check_dtypes_def inv by (simp add: Let_def)
qed

text \<open>
  Claim C2, as stated, fails: \<open>GtComparator\<close> of the package compares through
  \<open>CompareMixin._compare\<close> and never calls the dtype guard; on a text column and a text
  target it returns a boolean matrix.
\<close>

theorem package_gt_text_counterexample:
  "GtComparator no_conversions (text_frame ''x'' [''c'', ''a'']) (Scalar (CStr ''b'')) =
     Inr (bool_frame (LStr ''x'') [True, False])"
  by (simp add: GtComparator_def compare_def valid_def series_method_def text_frame_def
      compare_series_def coerce_scalar_def flex_cmp_def cmp_values_def cmp_cells_def
      isna_cell_def row_dtype_def common_dtype_def row_values_def frame_of_rows_def
      bool_frame_def lookup_cell_def Let_def upt_rec numeral_2_eq_2)

text \<open>
  Claim C2, amended. The comparators of comparators/row_wise.py that call the dtype guard
  \<open>Comparator._check_dtypes\<close>, which are \<open>Between\<close> and \<open>RanksIn\<close>, fail on a selection of
  columns (with distinct labels, all of them strings) that has a column that is not numeric,
  whatever the target: they raise the \<open>TypeError\<close> of the guard, whose message lists the
  labels of exactly the columns that are not numeric, and return no matrix.
\<close>

theorem dtype_guard_rejects_non_numeric:
  assumes "distinct (map cname (columns df))"
    and "list_all (\<lambda>c. is_LStr (cname c)) (columns df)"
    and "c \<in> set (columns df)"
    and "cdtype c \<noteq> Int64" and "cdtype c \<noteq> Float64"
  shows "cname c \<in> non_numeric df
       \<and> BetweenComparator lib df target = Inl (ColumnsTypeError ''number'' (non_numeric df))
       \<and> RankComparator df target = Inl (ColumnsTypeError ''number'' (non_numeric df))"
  using check_dtypes_number[OF assms]
  by (simp add: BetweenComparator_def RankComparator_def)

theorem dtype_guard_rejects_non_numeric_witness:
  "BetweenComparator no_conversions (text_frame ''x'' [''c'', ''a'']) (Scalar (CStr ''2:4'')) =
     Inl (ColumnsTypeError ''number'' {LStr ''x''})
   \<and> RankComparator (text_frame ''x'' [''c'', ''a'']) (Scalar (CStr ''top 10%'')) =
     Inl (ColumnsTypeError ''number'' {LStr ''x''})"
proof -
  let ?c = "\<lparr>cname = LStr ''x'', cdtype = Object, cells = [CStr ''c'', CStr ''a'']\<rparr>"
  have d: "distinct (map cname (columns (text_frame ''x'' [''c'', ''a''])))"
    and s: "list_all (\<lambda>c. is_LStr (cname c)) (columns (text_frame ''x'' [''c'', ''a'']))"
    by (simp_all add: text_frame_def)
  have m: "?c \<in> set (columns (text_frame ''x'' [''c'', ''a'']))"
    by (simp add: text_frame_def)
  have i: "cdtype ?c \<noteq> Int64" and f: "cdtype ?c \<noteq> Float64" by simp_all
  have n: "non_numeric (text_frame ''x'' [''c'', ''a'']) = {LStr ''x''}"
    by (simp add: non_numeric_def text_frame_def)
  from dtype_guard_rejects_non_numeric [OF d s m i f, of no_conversions "Scalar (CStr ''2:4'')"]
    dtype_guard_rejects_non_numeric [OF d s m i f, of no_conversions "Scalar (CStr ''top 10%'')"]
  show ?thesis by (simp add: n)
qed

subsection \<open>Legacy module against package\<close>

text \<open>
  Claim C5 at the symbols \<open>>=\<close> and \<open><=\<close>: on a column of floats and a float target the
  legacy comparators return their matrix, while those of the package raise
  \<open>AttributeError\<close>, since \<open>pd.Series\<close> has no method \<open>gte\<close> or \<open>lte\<close>.
\<close>

theorem gteq_lteq_legacy_package_differ:
  "GtEqComparator_legacy lib (float_frame ''x'' [1, 2]) (Scalar (CFloat 1)) =
     Inr (bool_frame (LStr ''x'') [True, True])
   \<and> GtEqComparator lib (float_frame ''x'' [1, 2]) (Scalar (CFloat 1)) =
     Inl (AttributeError (''type object '' @ quoted ''Series'' @ '' has no attribute ''
            @ quoted ''gte''))
   \<and> LtEqComparator_legacy lib (float_frame ''x'' [1, 2]) (Scalar (CFloat 1)) =
     Inr (bool_frame (LStr ''x'') [True, False])
   \<and> LtEqComparator lib (float_frame ''x'' [1, 2]) (Scalar (CFloat 1)) =
     Inl (AttributeError (''type object '' @ quoted ''Series'' @ '' has no attribute ''
            @ quoted ''lte''))"
  by (simp add: GtEqComparator_legacy_def LtEqComparator_legacy_def numeric_compare_legacy_def
      check_dtypes_legacy_def check_dtypes_def select_dtypes_def dtype_matches_def float_frame_def
      series_astype_def
      series_of_target_def frame_cmp_def pad_def cmp_values_def cmp_cells_def isna_cell_def
      bool_frame_def GtEqComparator_def LtEqComparator_def compare_def valid_def
      series_method_def Let_def)

subsection \<open>Shape of the result\<close>

text \<open>
  Claim C9 at a per-row target: \<open>EqComparator\<close> of the package applies
  \<open>_compare_series\<close> to every row (\<open>axis=1\<close>), so each row, indexed by the column labels, is
  compared with the whole target, indexed by the row labels. On one column of two rows the
  result has two rows and three columns.
\<close>

theorem package_eq_vector_target_shape:
  "map_sum id shape
     (EqComparator lib (float_frame ''a'' [1, 2]) (Vector Float64 [CFloat 1, CFloat 2])) =
     Inr (2, 3)
   \<and> shape (float_frame ''a'' [1, 2]) = (2, 1)"
  by (simp add: EqComparator_def compare_def valid_def series_method_def float_frame_def
      compare_series_def series_astype_def flex_cmp_def union_index_def range_index_def
      cmp_values_def cmp_cells_def isna_cell_def row_dtype_def common_dtype_def row_values_def
      frame_of_rows_def lookup_cell_def shape_def Let_def upt_rec numeral_2_eq_2)

subsection \<open>RanksIn with a percentile target\<close>

lemma takeWhile_run:
  "list_all P xs \<Longrightarrow> ys = [] \<or> \<not> P (hd ys) \<Longrightarrow> takeWhile P (xs @ ys) = xs"
  by (cases ys) (auto simp: list_all_iff)

lemma dropWhile_run:
  "list_all P xs \<Longrightarrow> ys = [] \<or> \<not> P (hd ys) \<Longrightarrow> dropWhile P (xs @ ys) = ys"
  by (cases ys) (auto simp: list_all_iff)

lemma digit_not_space: "is_digit c \<Longrightarrow> \<not> is_space c"
  by (auto simp: is_digit_def is_space_def)

lemma space_not_digit: "is_space c \<Longrightarrow> \<not> is_digit c"
  by (auto simp: is_digit_def is_space_def)

lemma percent_no_space_no_digit: "\<not> is_space CHR ''%''" "\<not> is_digit CHR ''%''"
  by (simp_all add: is_digit_def is_space_def)

lemma match_rank_percent:
  assumes side: "side = ''top'' \<or> side = ''bottom''"
    and ws: "ws \<noteq> []" "list_all is_space ws"
    and ds: "ds \<noteq> []" "list_all is_digit ds"
    and ws': "list_all is_space ws'"
  shows "match_rank (side @ ws @ ds @ ws' @ CHR ''%'' # rest) = Some (side, ds, True)"
proof -
  let ?tail = "ws' @ CHR ''%'' # rest"
  have tail_digit: "?tail = [] \<or> \<not> is_digit (hd ?tail)"
    using ws' by (cases ws') (auto simp: percent_no_space_no_digit space_not_digit)
  have pct_space: "CHR ''%'' # rest = [] \<or> \<not> is_space (hd (CHR ''%'' # rest))"
    by (simp add: percent_no_space_no_digit)
  have ds_space: "ds @ ?tail = [] \<or> \<not> is_space (hd (ds @ ?tail))"
    using ds by (cases ds) (auto simp: digit_not_space)
  have a: "takeWhile is_space (ws @ ds @ ?tail) = ws"
    using takeWhile_run[OF ws(2) ds_space] .
  have b: "dropWhile is_space (ws @ ds @ ?tail) = ds @ ?tail"
    using dropWhile_run[OF ws(2) ds_space] .
  have c: "takeWhile is_digit (ds @ ?tail) = ds"
    using takeWhile_run[OF ds(2) tail_digit] .
  have d: "dropWhile is_digit (ds @ ?tail) = ?tail"
    using dropWhile_run[OF ds(2) tail_digit] .
  have e: "dropWhile is_space ?tail = CHR ''%'' # rest"
    using dropWhile_run[OF ws' pct_space] .
  from side show ?thesis
  proof
    assume "side = ''top''"
    then show ?thesis
      using ws(1) ds(1) by (simp add: match_rank_def Let_def a b c d e)
  next
    assume "side = ''bottom''"
    then show ?thesis
      using ws(1) ds(1) by (simp add: match_rank_def Let_def a b c d e)
  qed
qed

lemma check_dtypes_numeric:
  "list_all (\<lambda>c. cdtype c = Int64 \<or> cdtype c = Float64) (columns df) \<Longrightarrow>
   check_dtypes df ''number'' = Inr ()"
proof -
  assume "list_all (\<lambda>c. cdtype c = Int64 \<or> cdtype c = Float64) (columns df)"
  then have "filter (\<lambda>c. dtype_matches ''number'' (cdtype c)) (columns df) = columns df"
    by (simp add: dtype_matches_def list_all_iff)
  then show ?thesis
    by (simp add: check_dtypes_def select_dtypes_def)
qed

text \<open>
  Claim C6. On numeric columns and a target \<open>top N%\<close> or \<open>bottom N%\<close> (the word, white
  space, the digits of \<open>N\<close>, optional white space, the percent sign, anything after it),
  \<open>RankComparator\<close> raises the \<open>ValueError\<close> of the percentile check if and only if \<open>N\<close> is
  not strictly between 0 and 100; otherwise it returns the matrix that is true exactly at
  the cells that hold a value whose fractional rank in its column (ascending for \<open>bottom\<close>,
  descending for \<open>top\<close>, ties averaged, over the values that are not missing) is at most
  \<open>N / 100\<close>.
\<close>

theorem ranks_in_percentile:
  assumes "list_all (\<lambda>c. cdtype c = Int64 \<or> cdtype c = Float64) (columns df)"
    and "side = ''top'' \<or> side = ''bottom''"
    and "ws \<noteq> []" and "list_all is_space ws"
    and "ds \<noteq> []" and "list_all is_digit ds"
    and "list_all is_space ws'"
  shows "RankComparator df (Scalar (CStr (side @ ws @ ds @ ws' @ CHR ''%'' # rest))) =
     (if 0 < int_of_digits ds \<and> int_of_digits ds < 100 then
        Inr (df\<lparr>columns := map (\<lambda>c. bool_column (cname c)
               (map (\<lambda>x. case num_of x of
                            None \<Rightarrow> False
                          | Some v \<Rightarrow>
                              rank_of (side = ''bottom'') True (valid_values (cells c)) v
                                \<le> real (int_of_digits ds) / 100)
                  (cells c)))
             (columns df)\<rparr>)
      else Inl (ValueError (''RankComparator: Percentile rank must be between 0 - 100, got ''
                  @ str_nat (int_of_digits ds) @ '' instead.'')))"
proof -
  have cells: "map (\<lambda>r. case r of None \<Rightarrow> False | Some v \<Rightarrow> v \<le> q)
        (rank_series asc True xs) =
      map (\<lambda>x. case num_of x of None \<Rightarrow> False
                | Some v \<Rightarrow> rank_of asc True (valid_values xs) v \<le> q) xs" for asc q xs
    by (auto simp: rank_series_def split: option.splits)
  show ?thesis
    using check_dtypes_numeric[OF assms(1)] match_rank_percent[OF assms(2-7), of rest]
    by (simp add: RankComparator_def Let_def ranks_le_def cells)
qed

theorem ranks_in_percentile_witness:
  "RankComparator (float_frame ''a'' [5, 3, 3, 1, 9, 2, 7, 8, 6, 4]) (Scalar (CStr ''top 10%'')) =
     Inr (bool_frame (LStr ''a'')
            [False, False, False, False, True, False, False, False, False, False])
   \<and> RankComparator (float_frame ''a'' [5, 3, 3, 1, 9, 2, 7, 8, 6, 4])
       (Scalar (CStr ''top 150%'')) =
     Inl (ValueError ''RankComparator: Percentile rank must be between 0 - 100, got 150 instead.'')"
proof -
  let ?df = "float_frame ''a'' [5, 3, 3, 1, 9, 2, 7, 8, 6, 4]"
  have n: "list_all (\<lambda>c. cdtype c = Int64 \<or> cdtype c = Float64) (columns ?df)"
    by (simp add: float_frame_def)
  have s: "''top'' = ''top'' \<or> ''top'' = ''bottom''" by simp
  have w: "'' '' \<noteq> []" "list_all is_space '' ''" "list_all is_space []"
    by (simp_all add: is_space_def)
  have d1: "''10'' \<noteq> []" "list_all is_digit ''10''"
    by (simp_all add: is_digit_def)
  have d2: "''150'' \<noteq> []" "list_all is_digit ''150''"
    by (simp_all add: is_digit_def)
  have v1: "int_of_digits ''10'' = 10" and v2: "int_of_digits ''150'' = 150"
    by (simp_all add: int_of_digits_def)
  have s150: "str_nat 150 = ''150''"
    by code_simp
  from ranks_in_percentile [OF n s w(1,2) d1 w(3), of "[]"]
    ranks_in_percentile [OF n s w(1,2) d2 w(3), of "[]"]
  show ?thesis
    by (simp add: v1 v2 s150 float_frame_def bool_frame_def bool_column_def valid_values_def
        List.map_filter_simps rank_of_def Let_def)
qed

subsection \<open>IsOutlierBy with the IQR method\<close>











end
